theory Spec2Isabelle
  imports Main
begin

section \<open>Graphic instance registration (src/unnamed/part_001)\<close>

text \<open>
  A shallow embedding of the \<^verbatim>\<open>RegistrationCoordinator\<close> class: the registry table
  \<^verbatim>\<open>_instancesRep.value\<close> is a list of records that every handler takes and returns,
  a handler's reply is the boolean it passes to its callback, and an exception thrown
  before the callback is called is a value of the reply type.
\<close>

subsection \<open>Data\<close>

type_synonym socket_id = string

text \<open>
  \<^verbatim>\<open>NodeCG.Bundle.GitData\<close>, \<^verbatim>\<open>NodeCG.Bundle.Graphic\<close> and \<^verbatim>\<open>NodeCG.Bundle\<close> are declared
  outside the files at hand; the records keep the fields the coordinator reads
  (\<^verbatim>\<open>git.hash\<close>, \<^verbatim>\<open>graphic.url\<close>, \<^verbatim>\<open>graphic.singleInstance\<close>, \<^verbatim>\<open>bundle.version\<close>,
  \<^verbatim>\<open>bundle.git\<close>, \<^verbatim>\<open>bundle.graphics\<close>). An absent (\<^verbatim>\<open>undefined\<close> or \<^verbatim>\<open>null\<close>) git
  value is \<open>None\<close>; an absent \<^verbatim>\<open>singleInstance\<close> is falsy and is \<open>False\<close>.
\<close>

record git_data =
  hash :: string

record graphic =
  url :: string
  singleInstance :: bool

record nodecg_bundle =
  version :: string
  git :: "git_data option"
  graphics :: "graphic list"

text \<open>
  \<^verbatim>\<open>bundles.find(bundleName)\<close> belongs to the bundle manager, which is not among the
  files; the registry it reads is a parameter of every function that calls it: a map
  from bundle names to bundles, \<open>None\<close> for \<^verbatim>\<open>undefined\<close>.
\<close>

type_synonym bundle_manager = "string \<rightharpoonup> nodecg_bundle"

text \<open>\<^verbatim>\<open>GraphicRegRequest\<close>, and \<^verbatim>\<open>GraphicsInstance\<close> which the handler builds by spreading it.\<close>

record graphic_reg_request =
  timestamp :: int
  pathName :: string
  bundleName :: string
  bundleVersion :: string
  bundleGit :: "git_data option"

record graphics_instance = graphic_reg_request +
  ipv4 :: string
  socketId :: socket_id
  singleInstance :: bool
  potentiallyOutOfDate :: bool
  "open" :: bool

datatype js_error = TypeError

subsection \<open>Helpers of the JavaScript runtime\<close>

text \<open>\<^verbatim>\<open>String.prototype.endsWith\<close>.\<close>

definition endsWith :: "string \<Rightarrow> string \<Rightarrow> bool" where
  "endsWith s t \<longleftrightarrow> length t \<le> length s \<and> drop (length s - length t) s = t"

text \<open>\<^verbatim>\<open>Array.prototype.findIndex\<close>; \<open>None\<close> is its \<^verbatim>\<open>-1\<close>.\<close>

fun findIndex :: "('a \<Rightarrow> bool) \<Rightarrow> 'a list \<Rightarrow> nat option" where
  "findIndex P [] = None"
| "findIndex P (x # xs) = (if P x then Some 0 else map_option Suc (findIndex P xs))"

text \<open>
  \<^verbatim>\<open>Array.prototype.find\<close> is \<^const>\<open>List.find\<close>. The object it returns is the array's
  own element, so an assignment to one of its fields changes the table at the first
  match: \<open>assignFirst P f xs\<close> applies the assignment \<open>f\<close> there.
\<close>

fun assignFirst :: "('a \<Rightarrow> bool) \<Rightarrow> ('a \<Rightarrow> 'a) \<Rightarrow> 'a list \<Rightarrow> 'a list" where
  "assignFirst P f [] = []"
| "assignFirst P f (x # xs) = (if P x then f x # xs else x # assignFirst P f xs)"

subsection \<open>Lookups and table operations\<close>

definition findGraphicManifest :: "bundle_manager \<Rightarrow> string \<Rightarrow> string \<Rightarrow> graphic option" where
  "findGraphicManifest bundles pn bn =
     (case bundles bn of
        None \<Rightarrow> None
      | Some b \<Rightarrow> find (\<lambda>g. url g = pn) (graphics b))"

text \<open>
  \<^verbatim>\<open>calcBundleGitMismatch\<close>: after the two guarded returns the source reads
  \<^verbatim>\<open>regRequest.bundleGit!.hash\<close>, which throws a TypeError when the value is absent. It
  is called on a request and on a table record alike, hence the record scheme.
\<close>

definition calcBundleGitMismatch ::
    "nodecg_bundle \<Rightarrow> 'a graphic_reg_request_scheme \<Rightarrow> js_error + bool" where
  "calcBundleGitMismatch b regRequest =
     (if bundleGit regRequest \<noteq> None \<and> git b = None then Inr True
      else if bundleGit regRequest = None \<and> git b \<noteq> None then Inr True
      else (case bundleGit regRequest of
              None \<Rightarrow> Inl TypeError
            | Some rg \<Rightarrow>
                (case git b of
                   None \<Rightarrow> Inl TypeError
                 | Some bg \<Rightarrow> Inr (hash rg \<noteq> hash bg))))"

definition calcBundleVersionMismatch ::
    "nodecg_bundle \<Rightarrow> 'a graphic_reg_request_scheme \<Rightarrow> bool" where
  "calcBundleVersionMismatch b regRequest \<longleftrightarrow> version b \<noteq> bundleVersion regRequest"

definition addRegistration :: "graphics_instance list \<Rightarrow> graphics_instance \<Rightarrow> graphics_instance list" where
  "addRegistration instances registration = instances @ [registration\<lparr>open := True\<rparr>]"

text \<open>The result is the removed record, \<open>None\<close> for \<^verbatim>\<open>false\<close>, and the table after the splice.\<close>

definition removeRegistration ::
    "graphics_instance list \<Rightarrow> socket_id \<Rightarrow> graphics_instance option \<times> graphics_instance list" where
  "removeRegistration instances sid =
     (case findIndex (\<lambda>inst. socketId inst = sid) instances of
        None \<Rightarrow> (None, instances)
      | Some registrationIndex \<Rightarrow>
          (Some (instances ! registrationIndex),
           take registrationIndex instances @ drop (Suc registrationIndex) instances))"

definition findRegistrationBySocketId ::
    "graphics_instance list \<Rightarrow> socket_id \<Rightarrow> graphics_instance option" where
  "findRegistrationBySocketId instances sid = find (\<lambda>inst. socketId inst = sid) instances"

definition findOpenRegistrationByPathName ::
    "graphics_instance list \<Rightarrow> string \<Rightarrow> graphics_instance option" where
  "findOpenRegistrationByPathName instances pn =
     find (\<lambda>inst. pathName inst = pn \<and> open inst) instances"

subsection \<open>The socket handlers\<close>

text \<open>
  The handler's local \<^verbatim>\<open>pathName\<close> (lines 49 to 52): the request's path, with
  \<^verbatim>\<open>index.html\<close> appended when it ends with \<^verbatim>\<open>/<bundleName>/graphics/\<close>.
\<close>

definition localPathName :: "graphic_reg_request \<Rightarrow> string" where
  "localPathName regRequest =
     (if endsWith (pathName regRequest) (''/'' @ bundleName regRequest @ ''/graphics/'')
      then pathName regRequest @ ''index.html'' else pathName regRequest)"

text \<open>
  \<^verbatim>\<open>graphic:registerSocket\<close>. The reply is \<open>Inr b\<close> for \<^verbatim>\<open>cb(null, b)\<close> and \<open>Inl e\<close> when
  the handler throws before it calls back; the second component is the table the
  handler leaves. The record is built from the spread request, so it keeps the
  request's own \<^verbatim>\<open>pathName\<close>, not the local one with \<^verbatim>\<open>index.html\<close> appended. The
  \<^verbatim>\<open>graphicOccupied\<close> event the handler emits on the express app is not part of the table
  and is left out.
\<close>

definition registerSocket ::
    "bundle_manager \<Rightarrow> socket_id \<Rightarrow> string \<Rightarrow> graphic_reg_request \<Rightarrow> graphics_instance list
      \<Rightarrow> (js_error + bool) \<times> graphics_instance list" where
  "registerSocket bundles sid remoteAddress regRequest instances =
     (let bn = bundleName regRequest;
          pn = localPathName regRequest
      in case bundles bn of
           None \<Rightarrow> (Inr False, instances)
         | Some b \<Rightarrow>
             (case findGraphicManifest bundles pn bn of
                None \<Rightarrow> (Inr False, instances)
              | Some graphicManifest \<Rightarrow>
                  (let existingSocketRegistration = findRegistrationBySocketId instances sid;
                       existingPathRegistration = findOpenRegistrationByPathName instances pn
                   in if existingPathRegistration \<noteq> None \<and> graphic.singleInstance graphicManifest
                      then (if socketId (the existingPathRegistration) = sid
                            then (Inr True, instances)
                            else (Inr (\<not> open (the existingPathRegistration)), instances))
                      else if existingSocketRegistration \<noteq> None
                      then (Inr True,
                            assignFirst (\<lambda>inst. socketId inst = sid)
                              (\<lambda>inst. inst\<lparr>open := True\<rparr>) instances)
                      else (case calcBundleGitMismatch b regRequest of
                              Inl e \<Rightarrow> (Inl e, instances)
                            | Inr gitMismatch \<Rightarrow>
                                (Inr True,
                                 addRegistration instances
                                   \<lparr>timestamp = timestamp regRequest,
                                    pathName = pathName regRequest,
                                    bundleName = bundleName regRequest,
                                    bundleVersion = bundleVersion regRequest,
                                    bundleGit = bundleGit regRequest,
                                    ipv4 = remoteAddress,
                                    socketId = sid,
                                    singleInstance = graphic.singleInstance graphicManifest,
                                    potentiallyOutOfDate =
                                      (gitMismatch \<or> calcBundleVersionMismatch b regRequest),
                                    open = True\<rparr>)))))"

text \<open>\<^verbatim>\<open>graphic:queryAvailability\<close>: the reply is \<^verbatim>\<open>!this._findOpenRegistrationByPathName(pathName)\<close>.\<close>

definition queryAvailability :: "graphics_instance list \<Rightarrow> string \<Rightarrow> bool" where
  "queryAvailability instances pn \<longleftrightarrow> findOpenRegistrationByPathName instances pn = None"

text \<open>
  The coordinator's state: the table and the pending \<^verbatim>\<open>setTimeout\<close> callbacks, each of
  which is \<^verbatim>\<open>() => this._removeRegistration(socket.id)\<close> and is kept as its socket id.
  The source never clears a timer.
\<close>

record coordinator =
  instancesRep :: "graphics_instance list"
  timers :: "socket_id list"

text \<open>The \<^verbatim>\<open>disconnect\<close> handler (its \<^verbatim>\<open>graphicAvailable\<close> event is left out).\<close>

definition disconnect :: "socket_id \<Rightarrow> coordinator \<Rightarrow> coordinator" where
  "disconnect sid st =
     (case findRegistrationBySocketId (instancesRep st) sid of
        None \<Rightarrow> st
      | Some registration \<Rightarrow>
          st\<lparr>instancesRep :=
                assignFirst (\<lambda>inst. socketId inst = sid) (\<lambda>inst. inst\<lparr>open := False\<rparr>)
                  (instancesRep st),
             timers := timers st @ [sid]\<rparr>)"

text \<open>A pending timer fires, one second after its disconnect: the reap.\<close>

definition timeout :: "socket_id \<Rightarrow> coordinator \<Rightarrow> coordinator" where
  "timeout sid st =
     (if sid \<in> set (timers st)
      then st\<lparr>instancesRep := snd (removeRegistration (instancesRep st) sid),
              timers := remove1 sid (timers st)\<rparr>
      else st)"

subsection \<open>The bundle-change rescan\<close>

text \<open>
  The callback \<^verbatim>\<open>_updateInstanceStatuses\<close> passes to \<^verbatim>\<open>forEach\<close>, on one record: the record
  as the callback leaves it, or the error it throws.
\<close>

definition updateInstanceStatus :: "bundle_manager \<Rightarrow> graphics_instance \<Rightarrow> js_error + graphics_instance" where
  "updateInstanceStatus bundles inst =
     (case bundles (bundleName inst) of
        None \<Rightarrow> Inr inst
      | Some b \<Rightarrow>
          (case findGraphicManifest bundles (pathName inst) (bundleName inst) of
             None \<Rightarrow> Inr inst
           | Some graphicManifest \<Rightarrow>
               (case calcBundleGitMismatch b inst of
                  Inl e \<Rightarrow> Inl e
                | Inr gitMismatch \<Rightarrow>
                    Inr (inst\<lparr>potentiallyOutOfDate :=
                                 (gitMismatch \<or> calcBundleVersionMismatch b inst),
                               singleInstance := graphic.singleInstance graphicManifest\<rparr>))))"

text \<open>
  \<^verbatim>\<open>_updateInstanceStatuses\<close>: \<^verbatim>\<open>forEach\<close> stops at the first record whose callback throws;
  the records before it are already updated, that record and the ones after it are not.
  The first component is the error thrown, \<open>None\<close> when the scan completes.
\<close>

fun updateInstanceStatuses ::
    "bundle_manager \<Rightarrow> graphics_instance list \<Rightarrow> js_error option \<times> graphics_instance list" where
  "updateInstanceStatuses bundles [] = (None, [])"
| "updateInstanceStatuses bundles (inst # rest) =
     (case updateInstanceStatus bundles inst of
        Inl e \<Rightarrow> (Some e, inst # rest)
      | Inr inst' \<Rightarrow>
          (case updateInstanceStatuses bundles rest of
             (r, rest') \<Rightarrow> (r, inst' # rest')))"

subsection \<open>Events\<close>

text \<open>
  The events the coordinator handles, in the order Node's event loop delivers them; one
  handler runs to completion before the next starts. A handler that throws leaves the
  table as it was when the exception was raised.
\<close>

datatype event =
    RegisterSocket socket_id string graphic_reg_request
  | Disconnect socket_id
  | Timeout socket_id
  | BundleChanged

fun handle :: "bundle_manager \<Rightarrow> coordinator \<Rightarrow> event \<Rightarrow> coordinator" where
  "handle bundles st (RegisterSocket sid remoteAddress regRequest) =
     st\<lparr>instancesRep := snd (registerSocket bundles sid remoteAddress regRequest (instancesRep st))\<rparr>"
| "handle bundles st (Disconnect sid) = disconnect sid st"
| "handle bundles st (Timeout sid) = timeout sid st"
| "handle bundles st BundleChanged =
     st\<lparr>instancesRep := snd (updateInstanceStatuses bundles (instancesRep st))\<rparr>"

definition run :: "bundle_manager \<Rightarrow> event list \<Rightarrow> coordinator" where
  "run bundles evs = foldl (handle bundles) \<lparr>instancesRep = [], timers = []\<rparr> evs"

subsection \<open>The specification's reading of the availability query\<close>

text \<open>
  The specification words \<^verbatim>\<open>queryAvailability\<close> as \<open>isOccupied\<close>: true iff an open,
  exclusive record exists for the path. This definition follows those words, to be
  compared with \<^const>\<open>queryAvailability\<close>, which follows the handler.
\<close>

definition isOccupied :: "graphics_instance list \<Rightarrow> string \<Rightarrow> bool" where
  "isOccupied instances pn \<longleftrightarrow>
     filter (\<lambda>inst. pathName inst = pn \<and> open inst \<and> graphics_instance.singleInstance inst)
       instances \<noteq> []"

text \<open>The open records the table holds for a path.\<close>

definition openRegistrations :: "graphics_instance list \<Rightarrow> string \<Rightarrow> graphics_instance list" where
  "openRegistrations instances pn = filter (\<lambda>inst. pathName inst = pn \<and> open inst) instances"

text \<open>
  An event concerns the path \<open>pn\<close> of a single-instance graphic when, if it is a
  registration, it asks for \<open>pn\<close> under that very name (the handler does not append
  \<^verbatim>\<open>index.html\<close> to it) and the graphic it resolves to is marked \<^verbatim>\<open>singleInstance\<close>.
  Disconnects, timers and rescans concern every path.
\<close>

fun concerns :: "bundle_manager \<Rightarrow> string \<Rightarrow> event \<Rightarrow> bool" where
  "concerns bundles pn (RegisterSocket sid remoteAddress regRequest) \<longleftrightarrow>
     pathName regRequest = pn \<and> localPathName regRequest = pn \<and>
     (case findGraphicManifest bundles pn (bundleName regRequest) of
        None \<Rightarrow> True
      | Some graphicManifest \<Rightarrow> graphic.singleInstance graphicManifest)"
| "concerns bundles pn ev \<longleftrightarrow> True"

subsection \<open>A bundle registry and requests to run the handlers on\<close>

text \<open>
  The bundle \<open>demo\<close> at version 1.0.0 and revision \<open>abc\<close> declares two single-instance
  graphics, one of them the index page, and one graphic that any number of sockets may
  open; the bundle \<open>plain\<close> is not a git repository.
\<close>

definition demoBundle :: nodecg_bundle where
  "demoBundle =
     \<lparr>version = ''1.0.0'', git = Some \<lparr>hash = ''abc''\<rparr>,
      graphics =
        [\<lparr>url = ''/bundles/demo/graphics/index.html'', singleInstance = True\<rparr>,
         \<lparr>url = ''/bundles/demo/graphics/main.html'', singleInstance = True\<rparr>,
         \<lparr>url = ''/bundles/demo/graphics/ticker.html'', singleInstance = False\<rparr>]\<rparr>"

definition plainBundle :: nodecg_bundle where
  "plainBundle =
     \<lparr>version = ''2.0.0'', git = None,
      graphics = [\<lparr>url = ''/bundles/plain/graphics/clock.html'', singleInstance = False\<rparr>]\<rparr>"

definition demoBundles :: bundle_manager where
  "demoBundles = [''demo'' \<mapsto> demoBundle, ''plain'' \<mapsto> plainBundle]"

text \<open>The registry after \<open>demo\<close> has moved to revision \<open>def\<close>.\<close>

definition demoBundles' :: bundle_manager where
  "demoBundles' = demoBundles(''demo'' \<mapsto> demoBundle\<lparr>git := Some \<lparr>hash = ''def''\<rparr>\<rparr>)"

definition demoRequest :: "string \<Rightarrow> graphic_reg_request" where
  "demoRequest pn =
     \<lparr>timestamp = 0, pathName = pn, bundleName = ''demo'', bundleVersion = ''1.0.0'',
      bundleGit = Some \<lparr>hash = ''abc''\<rparr>\<rparr>"

definition mainRequest :: graphic_reg_request where
  "mainRequest = demoRequest ''/bundles/demo/graphics/main.html''"

definition tickerRequest :: graphic_reg_request where
  "tickerRequest = demoRequest ''/bundles/demo/graphics/ticker.html''"

definition indexRequest :: graphic_reg_request where
  "indexRequest = demoRequest ''/bundles/demo/graphics/''"

definition clockRequest :: graphic_reg_request where
  "clockRequest =
     \<lparr>timestamp = 0, pathName = ''/bundles/plain/graphics/clock.html'', bundleName = ''plain'',
      bundleVersion = ''2.0.0'', bundleGit = None\<rparr>"

text \<open>The record the handler creates for a socket from a request of \<open>demo\<close> at revision \<open>abc\<close>.\<close>

definition demoInstance :: "socket_id \<Rightarrow> string \<Rightarrow> bool \<Rightarrow> bool \<Rightarrow> graphics_instance" where
  "demoInstance sid pn single isOpen =
     \<lparr>timestamp = 0, pathName = pn, bundleName = ''demo'', bundleVersion = ''1.0.0'',
      bundleGit = Some \<lparr>hash = ''abc''\<rparr>, ipv4 = ''127.0.0.1'', socketId = sid,
      singleInstance = single, potentiallyOutOfDate = False, open = isOpen\<rparr>"

text \<open>
  The bundle \<open>bare\<close> is not a git repository and declares one single-instance graphic.
  A page of it reports the revision it was built from, if it knows one.
\<close>

definition bareBundles :: bundle_manager where
  "bareBundles =
     [''bare'' \<mapsto>
        \<lparr>version = ''0.3.0'', git = None,
         graphics = [\<lparr>url = ''/bundles/bare/graphics/board.html'', singleInstance = True\<rparr>]\<rparr>]"

definition boardRequest :: "git_data option \<Rightarrow> graphic_reg_request" where
  "boardRequest g =
     \<lparr>timestamp = 0, pathName = ''/bundles/bare/graphics/board.html'', bundleName = ''bare'',
      bundleVersion = ''0.3.0'', bundleGit = g\<rparr>"

text \<open>The record the handler creates from \<open>boardRequest (Some \<lparr>hash = ''abc''\<rparr>)\<close>.\<close>

definition boardInstance :: "socket_id \<Rightarrow> bool \<Rightarrow> graphics_instance" where
  "boardInstance sid isOpen =
     \<lparr>timestamp = 0, pathName = ''/bundles/bare/graphics/board.html'', bundleName = ''bare'',
      bundleVersion = ''0.3.0'', bundleGit = Some \<lparr>hash = ''abc''\<rparr>, ipv4 = ''127.0.0.1'',
      socketId = sid, singleInstance = True, potentiallyOutOfDate = True, open = isOpen\<rparr>"

section \<open>Properties\<close>

subsection \<open>Lookups and in-place assignment\<close>

lemmas handler_defs =
  registerSocket_def localPathName_def endsWith_def findGraphicManifest_def
  findRegistrationBySocketId_def findOpenRegistrationByPathName_def calcBundleGitMismatch_def
  calcBundleVersionMismatch_def addRegistration_def removeRegistration_def queryAvailability_def
  disconnect_def timeout_def updateInstanceStatus_def run_def Let_def

lemmas demo_defs =
  demoBundle_def plainBundle_def demoBundles_def demoBundles'_def demoRequest_def
  mainRequest_def tickerRequest_def indexRequest_def clockRequest_def demoInstance_def
  bareBundles_def boardRequest_def boardInstance_def

lemma findOpenRegistrationByPathName_Some:
  "findOpenRegistrationByPathName instances pn = Some r \<Longrightarrow>
     r \<in> set instances \<and> pathName r = pn \<and> open r"
  by (auto simp: findOpenRegistrationByPathName_def find_Some_iff)

lemma findOpenRegistrationByPathName_None:
  "findOpenRegistrationByPathName instances pn = None \<longleftrightarrow>
     filter (\<lambda>inst. pathName inst = pn \<and> open inst) instances = []"
  by (auto simp: findOpenRegistrationByPathName_def find_None_iff filter_empty_conv)

lemma findRegistrationBySocketId_Some:
  "findRegistrationBySocketId instances sid = Some r \<Longrightarrow> r \<in> set instances \<and> socketId r = sid"
  by (auto simp: findRegistrationBySocketId_def find_Some_iff)

lemma findRegistrationBySocketId_None:
  "findRegistrationBySocketId instances sid = None \<longleftrightarrow> sid \<notin> socketId ` set instances"
  by (auto simp: findRegistrationBySocketId_def find_None_iff)

lemma length_assignFirst [simp]: "length (assignFirst P f xs) = length xs"
  by (induction xs) auto

lemma map_assignFirst: "(\<And>x. g (f x) = g x) \<Longrightarrow> map g (assignFirst P f xs) = map g xs"
  by (induction xs) auto

lemma assignFirst_no_match: "find P xs = None \<Longrightarrow> assignFirst P f xs = xs"
  by (induction xs) (auto split: if_splits)

lemma assignFirst_fixed: "find P xs = Some x \<Longrightarrow> f x = x \<Longrightarrow> assignFirst P f xs = xs"
  by (induction xs) (auto split: if_splits)

lemma find_assignFirst:
  "(\<And>x. P (f x) = P x) \<Longrightarrow> find P (assignFirst P f xs) = map_option f (find P xs)"
  by (induction xs) auto

lemma filter_assignFirst_other:
  "(\<And>x. P (f x) = P x) \<Longrightarrow> filter (\<lambda>x. \<not> P x) (assignFirst P f xs) = filter (\<lambda>x. \<not> P x) xs"
  by (induction xs) auto

lemma findIndex_find:
  "(case findIndex P xs of
      None \<Rightarrow> (None, xs)
    | Some i \<Rightarrow> (Some (xs ! i), take i xs @ drop (Suc i) xs)) =
   (case find P xs of None \<Rightarrow> (None, xs) | Some x \<Rightarrow> (Some x, remove1 x xs))"
proof (induction xs)
  case Nil
  show ?case by simp
next
  case (Cons y ys)
  show ?case
  proof (cases "P y")
    case True
    then show ?thesis by simp
  next
    case False
    then have "find P ys = Some x \<Longrightarrow> x \<noteq> y" for x
      by (auto simp: find_Some_iff)
    with False Cons show ?thesis
      by (auto split: option.splits)
  qed
qed

lemma findOpenRegistrationByPathName_None_open:
  "findOpenRegistrationByPathName instances pn = None \<longleftrightarrow> openRegistrations instances pn = []"
  by (simp add: findOpenRegistrationByPathName_None openRegistrations_def)

lemma set_assignFirst:
  "e \<in> set (assignFirst P f xs) \<Longrightarrow> e \<in> set xs \<or> (\<exists>x \<in> set xs. P x \<and> e = f x)"
  by (induction xs) (auto split: if_splits)

lemma assignFirst_close_distinct:
  "distinct (map socketId xs) \<Longrightarrow>
   r \<in> set (assignFirst (\<lambda>inst. socketId inst = sid) (\<lambda>inst. inst\<lparr>open := False\<rparr>) xs) \<Longrightarrow>
   (socketId r = sid \<and> \<not> open r) \<or> (socketId r \<noteq> sid \<and> r \<in> set xs)"
proof (induction xs)
  case Nil
  then show ?case by simp
next
  case (Cons x xs)
  show ?case
  proof (cases "socketId x = sid")
    case True
    with Cons.prems show ?thesis by (auto simp: image_iff)
  next
    case False
    with Cons show ?thesis by auto
  qed
qed

lemma instancesRep_disconnect:
  "instancesRep (disconnect sid st) =
     assignFirst (\<lambda>inst. socketId inst = sid) (\<lambda>inst. inst\<lparr>open := False\<rparr>) (instancesRep st)"
  by (simp add: disconnect_def findRegistrationBySocketId_def assignFirst_no_match
      split: option.splits)

lemma openRegistrations_disconnect:
  assumes "distinct (map socketId instances)"
    and "list_all (\<lambda>inst. pathName inst = pn \<and> open inst \<longrightarrow> socketId inst = sid) instances"
  shows "openRegistrations
           (assignFirst (\<lambda>inst. socketId inst = sid) (\<lambda>inst. inst\<lparr>open := False\<rparr>) instances) pn = []"
proof -
  have "\<not> (pathName r = pn \<and> open r)"
    if "r \<in> set (assignFirst (\<lambda>inst. socketId inst = sid) (\<lambda>inst. inst\<lparr>open := False\<rparr>) instances)" for r
    using assignFirst_close_distinct [OF assms(1) that] assms(2) by (auto simp: list_all_iff)
  then show ?thesis
    by (auto simp: openRegistrations_def filter_empty_conv)
qed

lemma filter_remove1_other: "P x \<Longrightarrow> filter (\<lambda>y. \<not> P y) (remove1 x xs) = filter (\<lambda>y. \<not> P y) xs"
  by (induction xs) auto

lemma removeRegistration_find:
  "removeRegistration instances sid =
     (case findRegistrationBySocketId instances sid of
        None \<Rightarrow> (None, instances)
      | Some r \<Rightarrow> (Some r, remove1 r instances))"
  using findIndex_find [where P = "\<lambda>inst. socketId inst = sid" and xs = instances]
  by (simp add: removeRegistration_def findRegistrationBySocketId_def)


subsection \<open>Declined registrations\<close>

text \<open>
  C3. A registration is declined when the bundle name does not resolve, when the path
  does not resolve to a graphic of that bundle, or when another socket holds an open
  record for the path of a single-instance graphic. In each case the handler replies
  \<^verbatim>\<open>false\<close> and leaves the table as it was; and whenever it replies \<^verbatim>\<open>false\<close>, for
  whatever reason, the table is the one it was given.
\<close>

theorem registerSocket_declined:
  "(bundles (bundleName regRequest) = None \<longrightarrow>
      registerSocket bundles sid remoteAddress regRequest instances = (Inr False, instances)) \<and>
   (findGraphicManifest bundles (localPathName regRequest) (bundleName regRequest) = None \<longrightarrow>
      registerSocket bundles sid remoteAddress regRequest instances = (Inr False, instances)) \<and>
   (findGraphicManifest bundles (localPathName regRequest) (bundleName regRequest) = Some gm \<and>
    graphic.singleInstance gm \<and>
    findOpenRegistrationByPathName instances (localPathName regRequest) = Some epr \<and>
    socketId epr \<noteq> sid \<longrightarrow>
      registerSocket bundles sid remoteAddress regRequest instances = (Inr False, instances)) \<and>
   (fst (registerSocket bundles sid remoteAddress regRequest instances) = Inr False \<longrightarrow>
      snd (registerSocket bundles sid remoteAddress regRequest instances) = instances)"
  by (auto simp: registerSocket_def Let_def findGraphicManifest_def
      dest: findOpenRegistrationByPathName_Some split: option.splits sum.splits if_splits)

text \<open>
  Socket \<open>B\<close> asks for the single-instance graphic that socket \<open>A\<close> has open, and a
  request names a bundle the registry does not hold.
\<close>

theorem registerSocket_declined_witness:
  "findGraphicManifest demoBundles (localPathName mainRequest) (bundleName mainRequest) =
     Some \<lparr>url = ''/bundles/demo/graphics/main.html'', singleInstance = True\<rparr> \<and>
   findOpenRegistrationByPathName
     [demoInstance ''A'' ''/bundles/demo/graphics/main.html'' True True]
     (localPathName mainRequest) =
     Some (demoInstance ''A'' ''/bundles/demo/graphics/main.html'' True True) \<and>
   registerSocket demoBundles ''B'' ''127.0.0.1'' mainRequest
     [demoInstance ''A'' ''/bundles/demo/graphics/main.html'' True True] =
     (Inr False, [demoInstance ''A'' ''/bundles/demo/graphics/main.html'' True True]) \<and>
   demoBundles (bundleName (mainRequest\<lparr>bundleName := ''gone''\<rparr>)) = None \<and>
   registerSocket demoBundles ''B'' ''127.0.0.1'' (mainRequest\<lparr>bundleName := ''gone''\<rparr>) [] =
     (Inr False, [])"
  using registerSocket_declined
    [where bundles = demoBundles and regRequest = mainRequest and sid = "''B''"
       and remoteAddress = "''127.0.0.1''"
       and instances = "[demoInstance ''A'' ''/bundles/demo/graphics/main.html'' True True]"
       and gm = "\<lparr>url = ''/bundles/demo/graphics/main.html'', singleInstance = True\<rparr>"
       and epr = "demoInstance ''A'' ''/bundles/demo/graphics/main.html'' True True"]
    registerSocket_declined
    [where bundles = demoBundles and regRequest = "mainRequest\<lparr>bundleName := ''gone''\<rparr>"
       and sid = "''B''" and remoteAddress = "''127.0.0.1''" and instances = "[]"]
  by (simp add: localPathName_def endsWith_def findGraphicManifest_def
      findOpenRegistrationByPathName_def demo_defs)

subsection \<open>The staleness computation is partial\<close>

text \<open>
  C9. When neither the request (or record) nor the bundle carries git metadata,
  \<^verbatim>\<open>calcBundleGitMismatch\<close> passes both guards and reads \<^verbatim>\<open>hash\<close> of the absent value:
  it throws a TypeError instead of returning \<^verbatim>\<open>false\<close>. A registration that reaches the
  creation of a record for such a bundle therefore throws and creates nothing, and the
  rescan's callback throws on a record of such a bundle.
\<close>

theorem calcBundleGitMismatch_both_absent:
  "(bundleGit req = None \<and> git b = None \<longrightarrow> calcBundleGitMismatch b req = Inl TypeError) \<and>
   (bundles (bundleName regRequest) = Some b \<and>
    findGraphicManifest bundles (localPathName regRequest) (bundleName regRequest) = Some gm \<and>
    (findOpenRegistrationByPathName instances (localPathName regRequest) = None \<or>
     \<not> graphic.singleInstance gm) \<and>
    findRegistrationBySocketId instances sid = None \<and>
    bundleGit regRequest = None \<and> git b = None \<longrightarrow>
      registerSocket bundles sid remoteAddress regRequest instances = (Inl TypeError, instances)) \<and>
   (bundles (bundleName inst) = Some b \<and>
    findGraphicManifest bundles (pathName inst) (bundleName inst) = Some gm' \<and>
    bundleGit inst = None \<and> git b = None \<longrightarrow>
      updateInstanceStatus bundles inst = Inl TypeError)"
  by (auto simp: registerSocket_def Let_def calcBundleGitMismatch_def updateInstanceStatus_def)

text \<open>A socket registers the clock of the bundle \<open>plain\<close>, which is not a git repository.\<close>

theorem calcBundleGitMismatch_both_absent_witness:
  "bundleGit clockRequest = None \<and> git plainBundle = None \<and>
   calcBundleGitMismatch plainBundle clockRequest = Inl TypeError \<and>
   demoBundles (bundleName clockRequest) = Some plainBundle \<and>
   findGraphicManifest demoBundles (localPathName clockRequest) (bundleName clockRequest) =
     Some \<lparr>url = ''/bundles/plain/graphics/clock.html'', singleInstance = False\<rparr> \<and>
   findRegistrationBySocketId [] ''A'' = None \<and>
   registerSocket demoBundles ''A'' ''127.0.0.1'' clockRequest [] = (Inl TypeError, [])"
  using calcBundleGitMismatch_both_absent
    [where req = clockRequest and b = plainBundle and bundles = demoBundles
       and regRequest = clockRequest and sid = "''A''" and remoteAddress = "''127.0.0.1''"
       and instances = "[]"
       and gm = "\<lparr>url = ''/bundles/plain/graphics/clock.html'', singleInstance = False\<rparr>"]
  by (simp add: localPathName_def endsWith_def findGraphicManifest_def
      findRegistrationBySocketId_def findOpenRegistrationByPathName_def demo_defs)

subsection \<open>The availability query\<close>

text \<open>
  C1, as the specification states it, fails: the handler replies
  \<^verbatim>\<open>!this._findOpenRegistrationByPathName(pathName)\<close>, so with an open single-instance
  record for the path in the table the reply is \<^verbatim>\<open>false\<close> where \<^const>\<open>isOccupied\<close> is true,
  and with an empty table the reply is \<^verbatim>\<open>true\<close> where \<^const>\<open>isOccupied\<close> is false.
\<close>

theorem queryAvailability_counterexample:
  "\<not> queryAvailability [demoInstance ''A'' ''/bundles/demo/graphics/main.html'' True True]
       ''/bundles/demo/graphics/main.html'' \<and>
   isOccupied [demoInstance ''A'' ''/bundles/demo/graphics/main.html'' True True]
     ''/bundles/demo/graphics/main.html'' \<and>
   queryAvailability [] ''/bundles/demo/graphics/main.html'' \<and>
   \<not> isOccupied [] ''/bundles/demo/graphics/main.html''"
  by (simp add: queryAvailability_def isOccupied_def findOpenRegistrationByPathName_def demoInstance_def)

text \<open>
  C1, amended. The query reports availability: it replies \<^verbatim>\<open>true\<close> iff the table holds
  no open record for the path, whatever the records' \<^verbatim>\<open>singleInstance\<close> flags. In a table
  whose socket ids are distinct, as they are in every run, once the disconnect of the
  socket that owns the open records for the path has been processed, the reply is
  \<^verbatim>\<open>true\<close>, before any timer has fired.
\<close>

theorem queryAvailability_no_open:
  "(queryAvailability instances pn \<longleftrightarrow> openRegistrations instances pn = []) \<and>
   (distinct (map socketId instances) \<and>
    list_all (\<lambda>inst. pathName inst = pn \<and> open inst \<longrightarrow> socketId inst = sid) instances \<longrightarrow>
      queryAvailability
        (instancesRep (disconnect sid \<lparr>instancesRep = instances, timers = ts\<rparr>)) pn)"
  using openRegistrations_disconnect [of instances pn sid]
  by (simp add: queryAvailability_def findOpenRegistrationByPathName_None_open
      instancesRep_disconnect)

theorem queryAvailability_no_open_witness:
  "distinct (map socketId [demoInstance ''A'' ''/bundles/demo/graphics/main.html'' True True]) \<and>
   list_all (\<lambda>inst. pathName inst = ''/bundles/demo/graphics/main.html'' \<and> open inst \<longrightarrow> socketId inst = ''A'')
     [demoInstance ''A'' ''/bundles/demo/graphics/main.html'' True True] \<and>
   \<not> queryAvailability [demoInstance ''A'' ''/bundles/demo/graphics/main.html'' True True]
       ''/bundles/demo/graphics/main.html'' \<and>
   instancesRep (disconnect ''A''
     \<lparr>instancesRep = [demoInstance ''A'' ''/bundles/demo/graphics/main.html'' True True], timers = []\<rparr>) =
     [demoInstance ''A'' ''/bundles/demo/graphics/main.html'' True False] \<and>
   queryAvailability (instancesRep (disconnect ''A''
     \<lparr>instancesRep = [demoInstance ''A'' ''/bundles/demo/graphics/main.html'' True True], timers = []\<rparr>))
     ''/bundles/demo/graphics/main.html''"
  using queryAvailability_no_open
    [of "[demoInstance ''A'' ''/bundles/demo/graphics/main.html'' True True]"
        "''/bundles/demo/graphics/main.html''" "''A''" "[]"]
  by (simp add: queryAvailability_def findOpenRegistrationByPathName_def disconnect_def
      findRegistrationBySocketId_def demoInstance_def)

subsection \<open>The delayed removal\<close>

text \<open>
  C4, as the specification states it, fails: socket \<open>A\<close> registers, disconnects and
  registers again before its timer fires; its record is open again, the timer is still
  pending, and when it fires \<^verbatim>\<open>_removeRegistration\<close> removes the open record.
\<close>

theorem timeout_counterexample:
  "instancesRep (run demoBundles
     [RegisterSocket ''A'' ''127.0.0.1'' mainRequest, Disconnect ''A'',
      RegisterSocket ''A'' ''127.0.0.1'' mainRequest]) =
     [demoInstance ''A'' ''/bundles/demo/graphics/main.html'' True True] \<and>
   timers (run demoBundles
     [RegisterSocket ''A'' ''127.0.0.1'' mainRequest, Disconnect ''A'',
      RegisterSocket ''A'' ''127.0.0.1'' mainRequest]) = [''A''] \<and>
   open (demoInstance ''A'' ''/bundles/demo/graphics/main.html'' True True) \<and>
   removeRegistration [demoInstance ''A'' ''/bundles/demo/graphics/main.html'' True True] ''A'' =
     (Some (demoInstance ''A'' ''/bundles/demo/graphics/main.html'' True True), []) \<and>
   instancesRep (run demoBundles
     [RegisterSocket ''A'' ''127.0.0.1'' mainRequest, Disconnect ''A'',
      RegisterSocket ''A'' ''127.0.0.1'' mainRequest, Timeout ''A'']) = []"
  by (simp add: handler_defs demo_defs)

text \<open>
  C4, amended. \<^verbatim>\<open>_removeRegistration\<close> looks at the socket id only: when the timer of a
  socket fires, the first record with that socket id is removed whether it is open or
  not, a table without such a record is left as it is, and the records of every other
  socket stay in place.
\<close>

theorem timeout_ignores_open:
  "(sid \<in> set (timers st) \<and> findRegistrationBySocketId (instancesRep st) sid = Some r \<longrightarrow>
      instancesRep (timeout sid st) = remove1 r (instancesRep st)) \<and>
   (sid \<in> set (timers st) \<and> findRegistrationBySocketId (instancesRep st) sid = None \<longrightarrow>
      instancesRep (timeout sid st) = instancesRep st) \<and>
   filter (\<lambda>inst. socketId inst \<noteq> sid) (instancesRep (timeout sid st)) =
     filter (\<lambda>inst. socketId inst \<noteq> sid) (instancesRep st)"
proof (cases "findRegistrationBySocketId (instancesRep st) sid")
  case None
  then show ?thesis by (simp add: timeout_def removeRegistration_find)
next
  case (Some a)
  then have "socketId a = sid" by (simp add: findRegistrationBySocketId_Some)
  with Some show ?thesis
    by (simp add: timeout_def removeRegistration_find
        filter_remove1_other [where P = "\<lambda>inst. socketId inst = sid"])
qed

theorem timeout_ignores_open_witness:
  "''A'' \<in> set (timers \<lparr>instancesRep = [demoInstance ''A'' ''/bundles/demo/graphics/main.html'' True True],
                          timers = [''A'']\<rparr>) \<and>
   findRegistrationBySocketId [demoInstance ''A'' ''/bundles/demo/graphics/main.html'' True True] ''A'' =
     Some (demoInstance ''A'' ''/bundles/demo/graphics/main.html'' True True) \<and>
   open (demoInstance ''A'' ''/bundles/demo/graphics/main.html'' True True) \<and>
   instancesRep (timeout ''A''
     \<lparr>instancesRep = [demoInstance ''A'' ''/bundles/demo/graphics/main.html'' True True],
      timers = [''A'']\<rparr>) = []"
  using timeout_ignores_open
    [of "''A''" "\<lparr>instancesRep = [demoInstance ''A'' ''/bundles/demo/graphics/main.html'' True True],
                  timers = [''A'']\<rparr>"
        "demoInstance ''A'' ''/bundles/demo/graphics/main.html'' True True"]
  by (simp add: findRegistrationBySocketId_def demoInstance_def)


subsection \<open>A socket that already holds a record\<close>

text \<open>
  C10. When the socket already holds a record and the request is admitted (its bundle
  and graphic resolve, and no open record stands at the path of a single-instance
  graphic), the handler replies \<^verbatim>\<open>true\<close> and only assigns \<^verbatim>\<open>open = true\<close> to the
  socket's record: the table keeps its length and its path names, so no record for the
  requested path is created, the records of other sockets are untouched, and the
  socket's record keeps every field but \<^verbatim>\<open>open\<close>.
\<close>

theorem registerSocket_existing_socket:
  "findRegistrationBySocketId instances sid = Some r \<and>
   bundles (bundleName regRequest) = Some b \<and>
   findGraphicManifest bundles (localPathName regRequest) (bundleName regRequest) = Some gm \<and>
   (findOpenRegistrationByPathName instances (localPathName regRequest) = None \<or>
    \<not> graphic.singleInstance gm) \<longrightarrow>
     registerSocket bundles sid remoteAddress regRequest instances =
       (Inr True,
        assignFirst (\<lambda>inst. socketId inst = sid) (\<lambda>inst. inst\<lparr>open := True\<rparr>) instances) \<and>
     length (snd (registerSocket bundles sid remoteAddress regRequest instances)) = length instances \<and>
     map pathName (snd (registerSocket bundles sid remoteAddress regRequest instances)) =
       map pathName instances \<and>
     filter (\<lambda>inst. socketId inst \<noteq> sid)
       (snd (registerSocket bundles sid remoteAddress regRequest instances)) =
       filter (\<lambda>inst. socketId inst \<noteq> sid) instances \<and>
     findRegistrationBySocketId (snd (registerSocket bundles sid remoteAddress regRequest instances)) sid =
       Some (r\<lparr>open := True\<rparr>)"
proof (intro impI, elim conjE)
  let ?P = "\<lambda>inst::graphics_instance. socketId inst = sid"
  let ?f = "\<lambda>inst::graphics_instance. inst\<lparr>open := True\<rparr>"
  assume r: "findRegistrationBySocketId instances sid = Some r"
    and b: "bundles (bundleName regRequest) = Some b"
    and gm: "findGraphicManifest bundles (localPathName regRequest) (bundleName regRequest) = Some gm"
    and adm: "findOpenRegistrationByPathName instances (localPathName regRequest) = None \<or>
      \<not> graphic.singleInstance gm"
  have res: "registerSocket bundles sid remoteAddress regRequest instances =
      (Inr True, assignFirst ?P ?f instances)"
    using r b gm adm by (auto simp: registerSocket_def Let_def)
  have "find ?P (assignFirst ?P ?f instances) = map_option ?f (find ?P instances)"
    by (rule find_assignFirst) simp
  then have found: "findRegistrationBySocketId (assignFirst ?P ?f instances) sid = Some (?f r)"
    using r by (simp add: findRegistrationBySocketId_def)
  have others: "filter (\<lambda>inst. \<not> ?P inst) (assignFirst ?P ?f instances) =
      filter (\<lambda>inst. \<not> ?P inst) instances"
    by (rule filter_assignFirst_other) simp
  have paths: "map pathName (assignFirst ?P ?f instances) = map pathName instances"
    by (rule map_assignFirst) simp
  show "registerSocket bundles sid remoteAddress regRequest instances =
       (Inr True, assignFirst ?P ?f instances) \<and>
     length (snd (registerSocket bundles sid remoteAddress regRequest instances)) = length instances \<and>
     map pathName (snd (registerSocket bundles sid remoteAddress regRequest instances)) =
       map pathName instances \<and>
     filter (\<lambda>inst. socketId inst \<noteq> sid)
       (snd (registerSocket bundles sid remoteAddress regRequest instances)) =
       filter (\<lambda>inst. socketId inst \<noteq> sid) instances \<and>
     findRegistrationBySocketId (snd (registerSocket bundles sid remoteAddress regRequest instances)) sid =
       Some (r\<lparr>open := True\<rparr>)"
    using res found others paths by simp
qed

text \<open>Socket \<open>B\<close> holds a record for the ticker and asks for the main graphic.\<close>

theorem registerSocket_existing_socket_witness:
  "findRegistrationBySocketId [demoInstance ''B'' ''/bundles/demo/graphics/ticker.html'' False True] ''B'' =
     Some (demoInstance ''B'' ''/bundles/demo/graphics/ticker.html'' False True) \<and>
   demoBundles (bundleName mainRequest) = Some demoBundle \<and>
   findGraphicManifest demoBundles (localPathName mainRequest) (bundleName mainRequest) =
     Some \<lparr>url = ''/bundles/demo/graphics/main.html'', singleInstance = True\<rparr> \<and>
   findOpenRegistrationByPathName [demoInstance ''B'' ''/bundles/demo/graphics/ticker.html'' False True]
     (localPathName mainRequest) = None \<and>
   registerSocket demoBundles ''B'' ''127.0.0.1'' mainRequest
     [demoInstance ''B'' ''/bundles/demo/graphics/ticker.html'' False True] =
     (Inr True, [demoInstance ''B'' ''/bundles/demo/graphics/ticker.html'' False True]) \<and>
   map pathName (snd (registerSocket demoBundles ''B'' ''127.0.0.1'' mainRequest
     [demoInstance ''B'' ''/bundles/demo/graphics/ticker.html'' False True])) =
     [''/bundles/demo/graphics/ticker.html'']"
  using registerSocket_existing_socket
    [where instances = "[demoInstance ''B'' ''/bundles/demo/graphics/ticker.html'' False True]"
       and sid = "''B''" and bundles = demoBundles and regRequest = mainRequest
       and remoteAddress = "''127.0.0.1''" and b = demoBundle
       and r = "demoInstance ''B'' ''/bundles/demo/graphics/ticker.html'' False True"
       and gm = "\<lparr>url = ''/bundles/demo/graphics/main.html'', singleInstance = True\<rparr>"]
  by (simp add: localPathName_def endsWith_def findGraphicManifest_def
      findRegistrationBySocketId_def findOpenRegistrationByPathName_def demo_defs)

subsection \<open>The registration handler, case by case\<close>

lemma map_open_assignFirst:
  "map (\<lambda>inst. inst\<lparr>open := True\<rparr>) (assignFirst P (\<lambda>inst::graphics_instance. inst\<lparr>open := b\<rparr>) xs) =
   map (\<lambda>inst. inst\<lparr>open := True\<rparr>) xs"
  by (rule map_assignFirst) simp

lemma localPathName_cong:
  "pathName r' = pathName r \<Longrightarrow> bundleName r' = bundleName r \<Longrightarrow> localPathName r' = localPathName r"
  unfolding localPathName_def by (simp only:)

lemma find_Some_set: "find P xs = Some x \<Longrightarrow> x \<in> set xs \<and> P x"
  by (induction xs) (auto split: if_splits)

lemma find_append_first:
  "find P (xs @ ys) = (case find P xs of None \<Rightarrow> find P ys | Some x \<Rightarrow> Some x)"
  by (induction xs) auto

lemma registerSocket_occupied:
  assumes "bundles (bundleName regRequest) = Some b"
    and "findGraphicManifest bundles (localPathName regRequest) (bundleName regRequest) = Some gm"
    and "graphic.singleInstance gm"
    and "findOpenRegistrationByPathName instances (localPathName regRequest) = Some epr"
  shows "registerSocket bundles sid remoteAddress regRequest instances =
           (Inr (socketId epr = sid), instances)"
  using assms findOpenRegistrationByPathName_Some [OF assms(4)]
  by (simp add: registerSocket_def Let_def)

lemma registerSocket_admitted:
  assumes "bundles (bundleName regRequest) = Some b"
    and "findGraphicManifest bundles (localPathName regRequest) (bundleName regRequest) = Some gm"
    and "findOpenRegistrationByPathName instances (localPathName regRequest) = None \<or>
         \<not> graphic.singleInstance gm"
  shows "registerSocket bundles sid remoteAddress regRequest instances =
           (if findRegistrationBySocketId instances sid \<noteq> None
            then (Inr True,
                  assignFirst (\<lambda>inst. socketId inst = sid) (\<lambda>inst. inst\<lparr>open := True\<rparr>) instances)
            else (case calcBundleGitMismatch b regRequest of
                    Inl e \<Rightarrow> (Inl e, instances)
                  | Inr gitMismatch \<Rightarrow>
                      (Inr True,
                       instances @
                         [\<lparr>timestamp = timestamp regRequest, pathName = pathName regRequest,
                           bundleName = bundleName regRequest,
                           bundleVersion = bundleVersion regRequest,
                           bundleGit = bundleGit regRequest, ipv4 = remoteAddress, socketId = sid,
                           singleInstance = graphic.singleInstance gm,
                           potentiallyOutOfDate =
                             (gitMismatch \<or> calcBundleVersionMismatch b regRequest),
                           open = True\<rparr>])))"
  using assms by (auto simp: registerSocket_def Let_def addRegistration_def split: sum.splits)

lemma registerSocket_accepted_cases:
  assumes "registerSocket bundles sid remoteAddress regRequest instances = (Inr True, instances')"
  obtains
    (own) b gm epr where "bundles (bundleName regRequest) = Some b"
      "findGraphicManifest bundles (localPathName regRequest) (bundleName regRequest) = Some gm"
      "graphic.singleInstance gm"
      "findOpenRegistrationByPathName instances (localPathName regRequest) = Some epr"
      "socketId epr = sid" "instances' = instances"
  | (reopen) b gm esr where "bundles (bundleName regRequest) = Some b"
      "findGraphicManifest bundles (localPathName regRequest) (bundleName regRequest) = Some gm"
      "findOpenRegistrationByPathName instances (localPathName regRequest) = None \<or>
         \<not> graphic.singleInstance gm"
      "findRegistrationBySocketId instances sid = Some esr"
      "instances' = assignFirst (\<lambda>inst. socketId inst = sid) (\<lambda>inst. inst\<lparr>open := True\<rparr>) instances"
  | (create) b gm new where "bundles (bundleName regRequest) = Some b"
      "findGraphicManifest bundles (localPathName regRequest) (bundleName regRequest) = Some gm"
      "findOpenRegistrationByPathName instances (localPathName regRequest) = None \<or>
         \<not> graphic.singleInstance gm"
      "findRegistrationBySocketId instances sid = None"
      "instances' = instances @ [new]" "socketId new = sid" "open new"
      "pathName new = pathName regRequest"
proof -
  let ?pn = "localPathName regRequest" and ?bn = "bundleName regRequest"
  from assms obtain b where b: "bundles ?bn = Some b"
    by (cases "bundles ?bn") (simp_all add: registerSocket_def Let_def)
  from assms b obtain gm where gm: "findGraphicManifest bundles ?pn ?bn = Some gm"
    by (cases "findGraphicManifest bundles ?pn ?bn") (simp_all add: registerSocket_def Let_def)
  show thesis
  proof (cases "findOpenRegistrationByPathName instances ?pn \<noteq> None \<and> graphic.singleInstance gm")
    case True
    then obtain epr where epr: "findOpenRegistrationByPathName instances ?pn = Some epr"
      by auto
    then have "open epr" by (simp add: findOpenRegistrationByPathName_Some)
    with assms b gm True epr have "socketId epr = sid \<and> instances' = instances"
      by (simp add: registerSocket_occupied [OF b gm _ epr])
    with b gm True epr show thesis by (intro own [of b gm epr]) simp_all
  next
    case False
    then have adm: "findOpenRegistrationByPathName instances ?pn = None \<or> \<not> graphic.singleInstance gm"
      by simp
    show thesis
    proof (cases "findRegistrationBySocketId instances sid")
      case (Some esr)
      with assms
      have "instances' = assignFirst (\<lambda>inst. socketId inst = sid) (\<lambda>inst. inst\<lparr>open := True\<rparr>) instances"
        by (simp add: registerSocket_admitted [OF b gm adm])
      with b gm adm Some show thesis by (intro reopen [of b gm esr]) simp_all
    next
      case None
      with assms obtain m where m: "calcBundleGitMismatch b regRequest = Inr m"
        by (cases "calcBundleGitMismatch b regRequest")
          (simp_all add: registerSocket_admitted [OF b gm adm])
      let ?new = "\<lparr>timestamp = timestamp regRequest, pathName = pathName regRequest,
          bundleName = bundleName regRequest, bundleVersion = bundleVersion regRequest,
          bundleGit = bundleGit regRequest, ipv4 = remoteAddress, socketId = sid,
          singleInstance = graphic.singleInstance gm,
          potentiallyOutOfDate = (m \<or> calcBundleVersionMismatch b regRequest),
          open = True\<rparr>"
      from assms None m have "instances' = instances @ [?new]"
        by (simp add: registerSocket_admitted [OF b gm adm])
      with b gm adm None show thesis by (intro create [of b gm ?new]) simp_all
    qed
  qed
qed

lemma registerSocket_table_cases:
  "snd (registerSocket bundles sid remoteAddress regRequest instances) = instances \<or>
   snd (registerSocket bundles sid remoteAddress regRequest instances) =
     assignFirst (\<lambda>inst. socketId inst = sid) (\<lambda>inst. inst\<lparr>open := True\<rparr>) instances \<or>
   (findRegistrationBySocketId instances sid = None \<and>
    (\<exists>new. snd (registerSocket bundles sid remoteAddress regRequest instances) = instances @ [new] \<and>
       socketId new = sid \<and> pathName new = pathName regRequest \<and> open new))"
proof (cases "bundles (bundleName regRequest)")
  case None
  then show ?thesis by (simp add: registerSocket_def Let_def)
next
  case (Some b)
  show ?thesis
  proof (cases "findGraphicManifest bundles (localPathName regRequest) (bundleName regRequest)")
    case None
    with Some show ?thesis by (simp add: registerSocket_def Let_def)
  next
    case gm: (Some gm)
    show ?thesis
    proof (cases "findOpenRegistrationByPathName instances (localPathName regRequest) = None \<or>
        \<not> graphic.singleInstance gm")
      case True
      show ?thesis
        by (cases "calcBundleGitMismatch b regRequest")
          (simp_all add: registerSocket_admitted [OF Some gm True])
    next
      case False
      then obtain epr where
        "findOpenRegistrationByPathName instances (localPathName regRequest) = Some epr"
        "graphic.singleInstance gm"
        by auto
      then show ?thesis by (simp add: registerSocket_occupied [OF Some gm])
    qed
  qed
qed

lemma calcBundleGitMismatch_defined:
  "\<not> (bundleGit r = None \<and> git b = None) \<Longrightarrow>
     calcBundleGitMismatch b r = Inr (map_option hash (bundleGit r) \<noteq> map_option hash (git b))"
  by (auto simp: calcBundleGitMismatch_def)

lemma findRegistrationBySocketId_assignFirst_None:
  assumes "findRegistrationBySocketId instances sid = None"
  shows "findRegistrationBySocketId
           (assignFirst P (\<lambda>inst::graphics_instance. inst\<lparr>open := v\<rparr>) instances) sid = None"
proof -
  have "map socketId (assignFirst P (\<lambda>inst::graphics_instance. inst\<lparr>open := v\<rparr>) instances) =
      map socketId instances"
    by (rule map_assignFirst) simp
  then have "socketId ` set (assignFirst P (\<lambda>inst::graphics_instance. inst\<lparr>open := v\<rparr>) instances) =
      socketId ` set instances"
    by (metis set_map)
  with assms show ?thesis by (simp add: findRegistrationBySocketId_None)
qed

subsection \<open>Registering twice\<close>

lemma registerSocket_no_second_record:
  assumes "findRegistrationBySocketId instances sid \<noteq> None"
  shows "map (\<lambda>inst. inst\<lparr>open := True\<rparr>)
           (snd (registerSocket bundles sid remoteAddress regRequest instances)) =
         map (\<lambda>inst. inst\<lparr>open := True\<rparr>) instances"
proof (cases "bundles (bundleName regRequest)")
  case None
  then show ?thesis by (simp add: registerSocket_def Let_def)
next
  case (Some b)
  show ?thesis
  proof (cases "findGraphicManifest bundles (localPathName regRequest) (bundleName regRequest)")
    case None
    with Some show ?thesis by (simp add: registerSocket_def Let_def)
  next
    case gm: (Some gm)
    show ?thesis
    proof (cases "findOpenRegistrationByPathName instances (localPathName regRequest) = None \<or>
        \<not> graphic.singleInstance gm")
      case True
      from assms show ?thesis
        by (simp add: registerSocket_admitted [OF Some gm True] map_open_assignFirst)
    next
      case False
      then obtain epr where
        "findOpenRegistrationByPathName instances (localPathName regRequest) = Some epr"
        "graphic.singleInstance gm"
        by auto
      then show ?thesis by (simp add: registerSocket_occupied [OF Some gm])
    qed
  qed
qed

lemma registerSocket_twice:
  assumes first: "registerSocket bundles sid remoteAddress regRequest instances = (Inr True, instances')"
    and same: "pathName regRequest' = pathName regRequest" "bundleName regRequest' = bundleName regRequest"
  shows "registerSocket bundles sid remoteAddress' regRequest' instances' = (Inr True, instances')"
    and "filter (\<lambda>inst. socketId inst = sid \<and> open inst) instances' \<noteq> []"
proof -
  let ?P = "\<lambda>inst::graphics_instance. socketId inst = sid"
  let ?f = "\<lambda>inst::graphics_instance. inst\<lparr>open := True\<rparr>"
  let ?pn = "localPathName regRequest"
  have pn: "localPathName regRequest' = ?pn"
    using same by (rule localPathName_cong)
  have "registerSocket bundles sid remoteAddress' regRequest' instances' = (Inr True, instances') \<and>
    filter (\<lambda>inst. socketId inst = sid \<and> open inst) instances' \<noteq> []"
    using first
  proof (cases rule: registerSocket_accepted_cases)
    case (own b gm epr)
    then show ?thesis
      using registerSocket_occupied [of bundles regRequest' b gm instances epr sid remoteAddress']
        findOpenRegistrationByPathName_Some [of instances ?pn epr]
      by (auto simp: pn same filter_empty_conv)
  next
    case (reopen b gm esr)
    have found: "find ?P instances' = Some (?f esr)"
      using reopen(4,5) find_assignFirst [of ?P ?f instances]
      by (simp add: findRegistrationBySocketId_def)
    then have fixed: "assignFirst ?P ?f instances' = instances'"
      by (rule assignFirst_fixed) simp
    have nonempty: "filter (\<lambda>inst. socketId inst = sid \<and> open inst) instances' \<noteq> []"
      using find_Some_set [OF found]
      by (auto simp: filter_empty_conv intro!: bexI [of _ "esr\<lparr>open := True\<rparr>"])
    show ?thesis
    proof (cases "findOpenRegistrationByPathName instances' ?pn = None \<or> \<not> graphic.singleInstance gm")
      case True
      then show ?thesis
        using registerSocket_admitted [of bundles regRequest' b gm instances' sid remoteAddress']
          reopen(1,2) found fixed nonempty
        by (simp add: pn same findRegistrationBySocketId_def)
    next
      case False
      then obtain e where e: "findOpenRegistrationByPathName instances' ?pn = Some e"
        and single: "graphic.singleInstance gm"
        by auto
      with reopen(3) have none: "findOpenRegistrationByPathName instances ?pn = None"
        by simp
      from e have "e \<in> set instances'" "pathName e = ?pn" "open e"
        by (simp_all add: findOpenRegistrationByPathName_Some)
      moreover have "\<not> (pathName x = ?pn \<and> open x)" if "x \<in> set instances" for x
        using none that by (auto simp: findOpenRegistrationByPathName_def find_None_iff)
      ultimately have "socketId e = sid"
        using reopen(5) set_assignFirst [of e ?P ?f instances] by auto
      then show ?thesis
        using registerSocket_occupied [of bundles regRequest' b gm instances' e sid remoteAddress']
          reopen(1,2) single e nonempty
        by (simp add: pn same)
    qed
  next
    case (create b gm new)
    have found: "find ?P instances' = Some new"
      using create(4,5,6) by (simp add: findRegistrationBySocketId_def find_append_first)
    then have fixed: "assignFirst ?P ?f instances' = instances'"
      using create(7) by (intro assignFirst_fixed [of ?P instances' new]) simp_all
    have nonempty: "filter (\<lambda>inst. socketId inst = sid \<and> open inst) instances' \<noteq> []"
      using create(5,6,7) by simp
    show ?thesis
    proof (cases "findOpenRegistrationByPathName instances' ?pn = None \<or> \<not> graphic.singleInstance gm")
      case True
      then show ?thesis
        using registerSocket_admitted [of bundles regRequest' b gm instances' sid remoteAddress']
          create(1,2) found fixed nonempty
        by (simp add: pn same findRegistrationBySocketId_def)
    next
      case False
      then obtain e where e: "findOpenRegistrationByPathName instances' ?pn = Some e"
        and single: "graphic.singleInstance gm"
        by auto
      with create(3) have none: "findOpenRegistrationByPathName instances ?pn = None"
        by simp
      with e create(5) have "e = new"
        by (auto simp: findOpenRegistrationByPathName_def find_append_first split: if_splits)
      then show ?thesis
        using registerSocket_occupied [of bundles regRequest' b gm instances' e sid remoteAddress']
          create(1,2,6) single e nonempty
        by (simp add: pn same)
    qed
  qed
  then show "registerSocket bundles sid remoteAddress' regRequest' instances' = (Inr True, instances')"
    and "filter (\<lambda>inst. socketId inst = sid \<and> open inst) instances' \<noteq> []"
    by simp_all
qed

text \<open>
  C7. A registration from a socket that holds a record never adds or removes a record:
  the table after the call differs from the table before it in \<^verbatim>\<open>open\<close> flags at most.
  And when a registration is accepted, the same socket registering again for the same
  path and bundle, against the same bundle registry, is accepted and leaves the table
  exactly as the first call left it, with an open record of the socket in it.
\<close>

theorem registerSocket_idempotent:
  "(findRegistrationBySocketId instances sid \<noteq> None \<longrightarrow>
      map (\<lambda>inst. inst\<lparr>open := True\<rparr>)
        (snd (registerSocket bundles sid remoteAddress regRequest instances)) =
      map (\<lambda>inst. inst\<lparr>open := True\<rparr>) instances) \<and>
   (registerSocket bundles sid remoteAddress regRequest instances = (Inr True, instances') \<and>
    pathName regRequest' = pathName regRequest \<and> bundleName regRequest' = bundleName regRequest \<longrightarrow>
      registerSocket bundles sid remoteAddress' regRequest' instances' = (Inr True, instances') \<and>
      filter (\<lambda>inst. socketId inst = sid \<and> open inst) instances' \<noteq> [])"
proof (intro conjI impI)
  assume "findRegistrationBySocketId instances sid \<noteq> None"
  then show "map (\<lambda>inst. inst\<lparr>open := True\<rparr>)
        (snd (registerSocket bundles sid remoteAddress regRequest instances)) =
      map (\<lambda>inst. inst\<lparr>open := True\<rparr>) instances"
    by (rule registerSocket_no_second_record)
next
  assume "registerSocket bundles sid remoteAddress regRequest instances = (Inr True, instances') \<and>
    pathName regRequest' = pathName regRequest \<and> bundleName regRequest' = bundleName regRequest"
  then show "registerSocket bundles sid remoteAddress' regRequest' instances' = (Inr True, instances')"
    by (blast intro: registerSocket_twice(1))
next
  assume "registerSocket bundles sid remoteAddress regRequest instances = (Inr True, instances') \<and>
    pathName regRequest' = pathName regRequest \<and> bundleName regRequest' = bundleName regRequest"
  then have "registerSocket bundles sid remoteAddress regRequest instances = (Inr True, instances')"
    and "pathName regRequest' = pathName regRequest"
    and "bundleName regRequest' = bundleName regRequest"
    by simp_all
  then show "filter (\<lambda>inst. socketId inst = sid \<and> open inst) instances' \<noteq> []"
    by (rule registerSocket_twice(2))
qed

text \<open>Socket \<open>A\<close> registers the main graphic twice.\<close>

theorem registerSocket_idempotent_witness:
  "registerSocket demoBundles ''A'' ''127.0.0.1'' mainRequest [] =
     (Inr True, [demoInstance ''A'' ''/bundles/demo/graphics/main.html'' True True]) \<and>
   findRegistrationBySocketId [demoInstance ''A'' ''/bundles/demo/graphics/main.html'' True True] ''A'' \<noteq> None \<and>
   registerSocket demoBundles ''A'' ''127.0.0.1'' (mainRequest\<lparr>timestamp := 5\<rparr>)
     [demoInstance ''A'' ''/bundles/demo/graphics/main.html'' True True] =
     (Inr True, [demoInstance ''A'' ''/bundles/demo/graphics/main.html'' True True])"
proof -
  have first: "registerSocket demoBundles ''A'' ''127.0.0.1'' mainRequest [] =
     (Inr True, [demoInstance ''A'' ''/bundles/demo/graphics/main.html'' True True])"
    by (simp add: handler_defs demo_defs)
  have found: "findRegistrationBySocketId
      [demoInstance ''A'' ''/bundles/demo/graphics/main.html'' True True] ''A'' \<noteq> None"
    by (simp add: findRegistrationBySocketId_def demoInstance_def)
  from first found
    registerSocket_idempotent
      [where bundles = demoBundles and sid = "''A''" and remoteAddress = "''127.0.0.1''"
         and regRequest = mainRequest and instances = "[]"
         and instances' = "[demoInstance ''A'' ''/bundles/demo/graphics/main.html'' True True]"
         and regRequest' = "mainRequest\<lparr>timestamp := 5\<rparr>" and remoteAddress' = "''127.0.0.1''"]
  show ?thesis by simp
qed

subsection \<open>A new socket within the grace window\<close>

text \<open>
  Where the staleness computation is defined the handler admits the new socket. In a
  table with distinct socket ids, let every open record for the path belong to socket
  \<open>sidA\<close>, and let \<open>sidA\<close> disconnect. If a socket \<open>sidB\<close> that holds no record then
  registers for the path, before any timer fires, with a request whose path the handler
  takes as it is, whose bundle and graphic resolve, and with git metadata on the request
  or on the bundle, the handler replies \<^verbatim>\<open>true\<close> and exactly one record for the path is
  open afterwards.
\<close>

theorem grace_window_reuse:
  "distinct (map socketId (instancesRep st)) \<and>
   list_all (\<lambda>inst. pathName inst = pathName regRequest \<and> open inst \<longrightarrow> socketId inst = sidA)
     (instancesRep st) \<and>
   findRegistrationBySocketId (instancesRep st) sidB = None \<and>
   localPathName regRequest = pathName regRequest \<and>
   bundles (bundleName regRequest) = Some b \<and>
   findGraphicManifest bundles (localPathName regRequest) (bundleName regRequest) = Some gm \<and>
   \<not> (bundleGit regRequest = None \<and> git b = None) \<longrightarrow>
     fst (registerSocket bundles sidB remoteAddress regRequest (instancesRep (disconnect sidA st))) =
       Inr True \<and>
     length (openRegistrations
       (snd (registerSocket bundles sidB remoteAddress regRequest (instancesRep (disconnect sidA st))))
       (pathName regRequest)) = 1"
proof (intro impI, elim conjE)
  let ?tbl = "instancesRep (disconnect sidA st)"
  assume dist: "distinct (map socketId (instancesRep st))"
    and only: "list_all (\<lambda>inst. pathName inst = pathName regRequest \<and> open inst \<longrightarrow> socketId inst = sidA)
      (instancesRep st)"
    and fresh: "findRegistrationBySocketId (instancesRep st) sidB = None"
    and pn: "localPathName regRequest = pathName regRequest"
    and b: "bundles (bundleName regRequest) = Some b"
    and gm: "findGraphicManifest bundles (localPathName regRequest) (bundleName regRequest) = Some gm"
    and git: "\<not> (bundleGit regRequest = None \<and> git b = None)"
  have closed: "openRegistrations ?tbl (pathName regRequest) = []"
    using openRegistrations_disconnect [OF dist only] by (simp add: instancesRep_disconnect)
  then have free: "findOpenRegistrationByPathName ?tbl (localPathName regRequest) = None \<or>
      \<not> graphic.singleInstance gm"
    by (simp add: pn findOpenRegistrationByPathName_None_open)
  have fresh': "findRegistrationBySocketId ?tbl sidB = None"
    using fresh by (simp add: instancesRep_disconnect findRegistrationBySocketId_assignFirst_None)
  show "fst (registerSocket bundles sidB remoteAddress regRequest ?tbl) = Inr True \<and>
     length (openRegistrations (snd (registerSocket bundles sidB remoteAddress regRequest ?tbl))
       (pathName regRequest)) = 1"
    using closed fresh'
    by (simp add: registerSocket_admitted [OF b gm free] calcBundleGitMismatch_defined [OF git]
        openRegistrations_def)
qed

theorem grace_window_reuse_witness:
  "distinct (map socketId [demoInstance ''A'' ''/bundles/demo/graphics/main.html'' True True]) \<and>
   list_all (\<lambda>inst. pathName inst = pathName mainRequest \<and> open inst \<longrightarrow> socketId inst = ''A'')
     [demoInstance ''A'' ''/bundles/demo/graphics/main.html'' True True] \<and>
   findRegistrationBySocketId [demoInstance ''A'' ''/bundles/demo/graphics/main.html'' True True] ''B'' = None \<and>
   localPathName mainRequest = pathName mainRequest \<and>
   demoBundles (bundleName mainRequest) = Some demoBundle \<and>
   findGraphicManifest demoBundles (localPathName mainRequest) (bundleName mainRequest) =
     Some \<lparr>url = ''/bundles/demo/graphics/main.html'', singleInstance = True\<rparr> \<and>
   \<not> (bundleGit mainRequest = None \<and> git demoBundle = None) \<and>
   fst (registerSocket demoBundles ''B'' ''127.0.0.1'' mainRequest
     (instancesRep (disconnect ''A''
        \<lparr>instancesRep = [demoInstance ''A'' ''/bundles/demo/graphics/main.html'' True True],
         timers = []\<rparr>))) = Inr True \<and>
   length (openRegistrations
     (snd (registerSocket demoBundles ''B'' ''127.0.0.1'' mainRequest
       (instancesRep (disconnect ''A''
          \<lparr>instancesRep = [demoInstance ''A'' ''/bundles/demo/graphics/main.html'' True True],
           timers = []\<rparr>))))
     (pathName mainRequest)) = 1"
  using grace_window_reuse
    [where st = "\<lparr>instancesRep = [demoInstance ''A'' ''/bundles/demo/graphics/main.html'' True True],
                  timers = []\<rparr>"
       and regRequest = mainRequest and sidA = "''A''" and sidB = "''B''" and bundles = demoBundles
       and b = demoBundle and remoteAddress = "''127.0.0.1''"
       and gm = "\<lparr>url = ''/bundles/demo/graphics/main.html'', singleInstance = True\<rparr>"]
  by (simp add: localPathName_def endsWith_def findGraphicManifest_def
      findRegistrationBySocketId_def demo_defs)

text \<open>
  C5. Where git metadata is absent on both sides the new socket is not admitted. Socket
  \<open>A\<close> holds the only open record for the single-instance graphic of \<open>bare\<close>, a bundle
  that is not a git repository, and disconnects. Socket \<open>B\<close>, a new connection that
  holds no record, registers for the same path before any timer fires, reporting no
  revision: \<^verbatim>\<open>calcBundleGitMismatch\<close> throws, the handler never calls back, and no record
  for the path is open afterwards.
\<close>

theorem grace_window_throws:
  "instancesRep (run bareBundles
      [RegisterSocket ''A'' ''127.0.0.1'' (boardRequest (Some \<lparr>hash = ''abc''\<rparr>))]) =
     [boardInstance ''A'' True] \<and>
   openRegistrations [boardInstance ''A'' True] ''/bundles/bare/graphics/board.html'' =
     [boardInstance ''A'' True] \<and>
   instancesRep (run bareBundles
      [RegisterSocket ''A'' ''127.0.0.1'' (boardRequest (Some \<lparr>hash = ''abc''\<rparr>)),
       Disconnect ''A'']) = [boardInstance ''A'' False] \<and>
   findRegistrationBySocketId [boardInstance ''A'' False] ''B'' = None \<and>
   registerSocket bareBundles ''B'' ''127.0.0.1'' (boardRequest None) [boardInstance ''A'' False] =
     (Inl TypeError, [boardInstance ''A'' False]) \<and>
   openRegistrations [boardInstance ''A'' False] ''/bundles/bare/graphics/board.html'' = []"
  by (simp add: handler_defs openRegistrations_def demo_defs)

subsection \<open>Runs of the coordinator\<close>

text \<open>No two records of a table the coordinator can reach share a socket id.\<close>

lemma updateInstanceStatus_keeps:
  "updateInstanceStatus bundles inst = Inr inst' \<Longrightarrow>
     socketId inst' = socketId inst \<and> pathName inst' = pathName inst \<and> open inst' = open inst"
  by (auto simp: updateInstanceStatus_def split: option.splits sum.splits)

lemma updateInstanceStatuses_map:
  assumes "\<And>inst inst'. updateInstanceStatus bundles inst = Inr inst' \<Longrightarrow> g inst' = g inst"
  shows "map g (snd (updateInstanceStatuses bundles instances)) = map g instances"
  by (induction instances) (auto split: sum.splits prod.splits dest: assms)

lemma updateInstanceStatuses_keeps:
  "map socketId (snd (updateInstanceStatuses bundles instances)) = map socketId instances"
  "map pathName (snd (updateInstanceStatuses bundles instances)) = map pathName instances"
  "map open (snd (updateInstanceStatuses bundles instances)) = map open instances"
  by (rule updateInstanceStatuses_map, simp add: updateInstanceStatus_keeps)+

lemma distinct_map_remove1: "distinct (map f xs) \<Longrightarrow> distinct (map f (remove1 x xs))"
proof (induction xs)
  case Nil
  then show ?case by simp
next
  case (Cons y ys)
  have "set (remove1 x ys) \<subseteq> set ys" by (rule set_remove1_subset)
  with Cons show ?case by auto
qed

lemma handle_distinct_socketIds:
  assumes "distinct (map socketId (instancesRep st))"
  shows "distinct (map socketId (instancesRep (handle bundles st ev)))"
proof (cases ev)
  case (RegisterSocket sid remoteAddress regRequest)
  have keep: "map socketId (assignFirst (\<lambda>inst. socketId inst = sid)
      (\<lambda>inst::graphics_instance. inst\<lparr>open := True\<rparr>) (instancesRep st)) = map socketId (instancesRep st)"
    by (rule map_assignFirst) simp
  from registerSocket_table_cases [of bundles sid remoteAddress regRequest "instancesRep st"]
  show ?thesis
    using assms keep RegisterSocket by (auto simp: findRegistrationBySocketId_None)
next
  case (Disconnect sid)
  have "map socketId (assignFirst (\<lambda>inst. socketId inst = sid)
      (\<lambda>inst::graphics_instance. inst\<lparr>open := False\<rparr>) (instancesRep st)) = map socketId (instancesRep st)"
    by (rule map_assignFirst) simp
  with assms Disconnect show ?thesis by (simp add: instancesRep_disconnect)
next
  case (Timeout sid)
  with assms show ?thesis
    by (simp add: timeout_def removeRegistration_find distinct_map_remove1 split: option.splits)
next
  case BundleChanged
  with assms show ?thesis by (simp add: updateInstanceStatuses_keeps)
qed

lemma foldl_handle_distinct:
  "distinct (map socketId (instancesRep st)) \<Longrightarrow>
     distinct (map socketId (instancesRep (foldl (handle bundles) st evs)))"
  by (induction evs arbitrary: st) (simp_all add: handle_distinct_socketIds)

lemma run_distinct_socketIds: "distinct (map socketId (instancesRep (run bundles evs)))"
  unfolding run_def by (rule foldl_handle_distinct) simp

text \<open>
  Single-instance enforcement, for a path the handler takes as it is: along every run
  whose events concern the path, at most one record for it is open.
\<close>

lemma map_eq_all:
  assumes "map g ys = map g xs" and "\<forall>r \<in> set xs. g r = c"
  shows "\<forall>r \<in> set ys. g r = c"
proof
  fix r
  assume "r \<in> set ys"
  then have "g r \<in> set (map g ys)" by simp
  with assms(1) have "g r \<in> set (map g xs)" by simp
  then obtain x where "x \<in> set xs" "g r = g x" by auto
  with assms(2) show "g r = c" by simp
qed

lemma pathName_assignFirst_open:
  assumes "\<forall>r \<in> set xs. pathName r = pn"
  shows "\<forall>r \<in> set (assignFirst P (\<lambda>inst::graphics_instance. inst\<lparr>open := v\<rparr>) xs). pathName r = pn"
proof -
  have "map pathName (assignFirst P (\<lambda>inst::graphics_instance. inst\<lparr>open := v\<rparr>) xs) = map pathName xs"
    by (rule map_assignFirst) simp
  then show ?thesis using assms by (rule map_eq_all)
qed

lemma open_count_assignFirst_close:
  "length (filter open (assignFirst P (\<lambda>inst::graphics_instance. inst\<lparr>open := False\<rparr>) xs)) \<le>
   length (filter open xs)"
  by (induction xs) auto

lemma open_count_assignFirst_open:
  "filter open xs = [] \<Longrightarrow>
   length (filter open (assignFirst P (\<lambda>inst::graphics_instance. inst\<lparr>open := True\<rparr>) xs)) \<le> 1"
  by (induction xs) (auto split: if_splits)

lemma open_count_remove1: "length (filter P (remove1 x xs)) \<le> length (filter P xs)"
  by (induction xs) auto

lemma open_count_map:
  assumes "map open (ys :: graphics_instance list) = map open (xs :: graphics_instance list)"
  shows "length (filter open ys) = length (filter open xs)"
proof -
  have count: "length (filter open zs) = length (filter id (map open zs))"
    for zs :: "graphics_instance list"
    by (induction zs) auto
  have "length (filter open ys) = length (filter id (map open ys))" by (rule count)
  also have "\<dots> = length (filter id (map open xs))" by (simp only: assms)
  also have "\<dots> = length (filter open xs)" by (rule count [symmetric])
  finally show ?thesis .
qed

lemma handle_exclusive:
  assumes ev: "concerns bundles pn ev"
    and paths: "\<forall>r \<in> set (instancesRep st). pathName r = pn"
    and one: "length (filter open (instancesRep st)) \<le> 1"
  shows "(\<forall>r \<in> set (instancesRep (handle bundles st ev)). pathName r = pn) \<and>
         length (filter open (instancesRep (handle bundles st ev))) \<le> 1"
proof (cases ev)
  case (RegisterSocket sid remoteAddress regRequest)
  let ?tbl = "instancesRep st"
  let ?res = "registerSocket bundles sid remoteAddress regRequest ?tbl"
  from ev RegisterSocket have pn: "pathName regRequest = pn" "localPathName regRequest = pn"
    by simp_all
  have "(\<forall>r \<in> set (snd ?res). pathName r = pn) \<and> length (filter open (snd ?res)) \<le> 1"
  proof (cases "bundles (bundleName regRequest)")
    case None
    with paths one show ?thesis by (simp add: registerSocket_def Let_def)
  next
    case (Some b)
    show ?thesis
    proof (cases "findGraphicManifest bundles (localPathName regRequest) (bundleName regRequest)")
      case None
      with Some paths one show ?thesis by (simp add: registerSocket_def Let_def)
    next
      case gm: (Some gm)
      with ev RegisterSocket pn have single: "graphic.singleInstance gm" by simp
      show ?thesis
      proof (cases "findOpenRegistrationByPathName ?tbl (localPathName regRequest)")
        case (Some epr)
        with paths one single show ?thesis
          by (simp add: registerSocket_occupied [OF \<open>bundles (bundleName regRequest) = Some b\<close> gm])
      next
        case None
        then have free: "findOpenRegistrationByPathName ?tbl (localPathName regRequest) = None \<or>
            \<not> graphic.singleInstance gm"
          by simp
        from None paths have closed: "filter open ?tbl = []"
          by (auto simp: pn findOpenRegistrationByPathName_def find_None_iff filter_empty_conv)
        show ?thesis
        proof (cases "findRegistrationBySocketId ?tbl sid")
          case (Some esr)
          then show ?thesis
            using pathName_assignFirst_open [OF paths] open_count_assignFirst_open [OF closed]
            by (simp add: registerSocket_admitted [OF \<open>bundles (bundleName regRequest) = Some b\<close> gm free])
        next
          case None
          then show ?thesis
            using paths one closed pn
            by (cases "calcBundleGitMismatch b regRequest")
              (simp_all add: registerSocket_admitted [OF \<open>bundles (bundleName regRequest) = Some b\<close> gm free])
        qed
      qed
    qed
  qed
  with RegisterSocket show ?thesis by simp
next
  case (Disconnect sid)
  then show ?thesis
    using pathName_assignFirst_open [OF paths]
      open_count_assignFirst_close [of "\<lambda>inst. socketId inst = sid" "instancesRep st"] one
    by (simp add: instancesRep_disconnect)
next
  case (Timeout sid)
  have "set (remove1 r (instancesRep st)) \<subseteq> set (instancesRep st)" for r
    by (rule set_remove1_subset)
  moreover have "length (filter open (remove1 r (instancesRep st))) \<le> 1" for r
    using open_count_remove1 [of "open" r "instancesRep st"] one by simp
  ultimately show ?thesis
    using Timeout paths one
    by (auto simp: timeout_def removeRegistration_find split: option.splits)
next
  case BundleChanged
  let ?tbl' = "snd (updateInstanceStatuses bundles (instancesRep st))"
  have "\<forall>r \<in> set ?tbl'. pathName r = pn"
    using updateInstanceStatuses_keeps(2) paths by (rule map_eq_all)
  moreover have "length (filter open ?tbl') \<le> 1"
    using one open_count_map [OF updateInstanceStatuses_keeps(3), of bundles "instancesRep st"]
    by simp
  ultimately show ?thesis using BundleChanged by simp
qed

lemma foldl_handle_exclusive:
  assumes "list_all (concerns bundles pn) evs"
    and "\<forall>r \<in> set (instancesRep st). pathName r = pn"
    and "length (filter open (instancesRep st)) \<le> 1"
  shows "(\<forall>r \<in> set (instancesRep (foldl (handle bundles) st evs)). pathName r = pn) \<and>
         length (filter open (instancesRep (foldl (handle bundles) st evs))) \<le> 1"
  using assms
proof (induction evs arbitrary: st)
  case Nil
  then show ?case by simp
next
  case (Cons ev evs)
  from Cons.prems have "concerns bundles pn ev" "list_all (concerns bundles pn) evs"
    by simp_all
  with handle_exclusive [OF this(1) Cons.prems(2,3)] Cons.IH [of "handle bundles st ev"]
  show ?case by simp
qed

lemma run_exclusive:
  assumes "list_all (concerns bundles pn) evs"
  shows "length (openRegistrations (instancesRep (run bundles evs)) pn) \<le> 1"
proof -
  let ?tbl = "instancesRep (run bundles evs)"
  have "length (filter (\<lambda>inst. pathName inst = pn \<and> open inst) xs) \<le> length (filter open xs)"
    for xs :: "graphics_instance list"
    by (induction xs) auto
  then have "length (openRegistrations ?tbl pn) \<le> length (filter open ?tbl)"
    by (simp add: openRegistrations_def)
  moreover have "length (filter open ?tbl) \<le> 1"
    using foldl_handle_exclusive [OF assms, of "\<lparr>instancesRep = [], timers = []\<rparr>"]
    by (simp add: run_def)
  ultimately show ?thesis by (rule order_trans)
qed

text \<open>
  Sockets \<open>A\<close> and \<open>B\<close> compete for the main graphic of \<open>demo\<close>: such a run concerns
  the path, and \<open>B\<close> holds the one open record at its end. A registration for the
  directory of the index page does not concern its path: the handler rewrites it.
\<close>

lemma run_exclusive_example:
  "list_all (concerns demoBundles ''/bundles/demo/graphics/main.html'')
     [RegisterSocket ''A'' ''127.0.0.1'' mainRequest, RegisterSocket ''B'' ''127.0.0.1'' mainRequest,
      Disconnect ''A'', RegisterSocket ''B'' ''127.0.0.1'' mainRequest, Timeout ''A''] \<and>
   openRegistrations (instancesRep (run demoBundles
     [RegisterSocket ''A'' ''127.0.0.1'' mainRequest, RegisterSocket ''B'' ''127.0.0.1'' mainRequest,
      Disconnect ''A'', RegisterSocket ''B'' ''127.0.0.1'' mainRequest, Timeout ''A'']))
     ''/bundles/demo/graphics/main.html'' =
     [demoInstance ''B'' ''/bundles/demo/graphics/main.html'' True True] \<and>
   \<not> concerns demoBundles ''/bundles/demo/graphics/'' (RegisterSocket ''A'' ''127.0.0.1'' indexRequest)"
  by (simp add: handler_defs openRegistrations_def demo_defs)

text \<open>
  C2. For a path that ends with \<^verbatim>\<open>/<bundleName>/graphics/\<close> the enforcement fails. The
  handler looks the graphic and the open record up under the path with \<^verbatim>\<open>index.html\<close>
  appended, but the record it creates keeps the path of the request, so the lookup of
  the next registration never finds it: sockets \<open>A\<close> and \<open>B\<close> both register the index
  page of \<open>demo\<close>, a single-instance graphic, both are accepted, and the table holds two
  open records for the path.
\<close>

theorem directory_path_two_open:
  "findGraphicManifest demoBundles (localPathName indexRequest) (bundleName indexRequest) =
     Some \<lparr>url = ''/bundles/demo/graphics/index.html'', singleInstance = True\<rparr> \<and>
   registerSocket demoBundles ''A'' ''127.0.0.1'' indexRequest [] =
     (Inr True, [demoInstance ''A'' ''/bundles/demo/graphics/'' True True]) \<and>
   registerSocket demoBundles ''B'' ''127.0.0.1'' indexRequest
     [demoInstance ''A'' ''/bundles/demo/graphics/'' True True] =
     (Inr True,
      [demoInstance ''A'' ''/bundles/demo/graphics/'' True True,
       (demoInstance ''B'' ''/bundles/demo/graphics/'' True True)]) \<and>
   openRegistrations
     (instancesRep (run demoBundles
        [RegisterSocket ''A'' ''127.0.0.1'' indexRequest,
         RegisterSocket ''B'' ''127.0.0.1'' indexRequest]))
     (pathName indexRequest) =
     [demoInstance ''A'' ''/bundles/demo/graphics/'' True True,
      demoInstance ''B'' ''/bundles/demo/graphics/'' True True]"
  by (simp add: handler_defs openRegistrations_def demo_defs)

subsection \<open>The rescan\<close>

text \<open>
  Where the bundle and the graphic of a record resolve, under the path the record
  stores, and git metadata stands on the record or on the bundle, the callback sets
  \<^verbatim>\<open>singleInstance\<close> to the manifest's flag and \<^verbatim>\<open>potentiallyOutOfDate\<close> to whether the
  revisions or the versions differ; a scan that completes has applied the callback to
  every record.
\<close>

lemma updateInstanceStatus_recomputes:
  assumes "bundles (bundleName inst) = Some b"
    and "findGraphicManifest bundles (pathName inst) (bundleName inst) = Some gm"
    and "\<not> (bundleGit inst = None \<and> git b = None)"
  shows "updateInstanceStatus bundles inst =
    Inr (inst\<lparr>potentiallyOutOfDate :=
                 (map_option hash (bundleGit inst) \<noteq> map_option hash (git b) \<or>
                  version b \<noteq> bundleVersion inst),
               singleInstance := graphic.singleInstance gm\<rparr>)"
  using assms
  by (simp add: updateInstanceStatus_def calcBundleGitMismatch_defined calcBundleVersionMismatch_def)

lemma updateInstanceStatuses_completed:
  "updateInstanceStatuses bundles instances = (None, instances') \<Longrightarrow>
     list_all2 (\<lambda>inst inst'. updateInstanceStatus bundles inst = Inr inst') instances instances'"
  by (induction instances arbitrary: instances') (auto split: sum.splits prod.splits)

text \<open>
  C6. For a record created from a path that ends with \<^verbatim>\<open>/<bundleName>/graphics/\<close> the
  rescan does nothing: the record stores the path of the request, the callback looks the
  graphic up under that path without appending \<^verbatim>\<open>index.html\<close>, finds none and returns.
  Socket \<open>A\<close> registers the index page of \<open>demo\<close> at revision \<open>abc\<close>, the registry moves
  to revision \<open>def\<close>, and after the rescan the record is still not marked out of date; a
  record that stores the path with \<^verbatim>\<open>index.html\<close> is marked.
\<close>

theorem directory_path_never_stale:
  "registerSocket demoBundles ''A'' ''127.0.0.1'' indexRequest [] =
     (Inr True, [demoInstance ''A'' ''/bundles/demo/graphics/'' True True]) \<and>
   bundleGit (demoInstance ''A'' ''/bundles/demo/graphics/'' True True) = Some \<lparr>hash = ''abc''\<rparr> \<and>
   map_option git (demoBundles' ''demo'') = Some (Some \<lparr>hash = ''def''\<rparr>) \<and>
   updateInstanceStatuses demoBundles' [demoInstance ''A'' ''/bundles/demo/graphics/'' True True] =
     (None, [demoInstance ''A'' ''/bundles/demo/graphics/'' True True]) \<and>
   \<not> potentiallyOutOfDate (demoInstance ''A'' ''/bundles/demo/graphics/'' True True) \<and>
   updateInstanceStatuses demoBundles' [demoInstance ''B'' ''/bundles/demo/graphics/index.html'' True True] =
     (None, [(demoInstance ''B'' ''/bundles/demo/graphics/index.html'' True True)
               \<lparr>potentiallyOutOfDate := True\<rparr>])"
  by (simp add: handler_defs demo_defs)

end
